theory Spec2Isabelle
  imports Complex_Main "HOL-Library.Word"
begin

section \<open>Strings and numbers of the host language\<close>

text \<open>
  The component \<^verbatim>\<open>Entry\<close> of \<^verbatim>\<open>src/contents/entry.tsx\<close> is written in TypeScript.
  A string of the host language is a sequence of UTF-16 code units: \<^verbatim>\<open>length\<close>,
  \<^verbatim>\<open>slice\<close>, \<^verbatim>\<open>+\<close> and \<^verbatim>\<open>===\<close> all work on code units, so a string is a list of
  16-bit words. The coordinates of a rectangle are numbers; they are taken as reals, so the
  rounding of double-precision arithmetic is outside this development.
\<close>

type_synonym jsstring = "16 word list"

definition utf16 :: "string \<Rightarrow> jsstring" where
  "utf16 cs = map (\<lambda>c. of_nat (of_char c)) cs"

text \<open>
  \<^verbatim>\<open>String.prototype.trim\<close> removes the code points of the grammar productions
  WhiteSpace and LineTerminator from both ends. All of them lie in the basic plane, so the
  test is one on code units.
\<close>

definition isWhiteSpace :: "16 word \<Rightarrow> bool" where
  "isWhiteSpace u \<longleftrightarrow>
     u \<in> set [0x0009, 0x000A, 0x000B, 0x000C, 0x000D, 0x0020, 0x00A0, 0x1680,
              0x2028, 0x2029, 0x202F, 0x205F, 0x3000, 0xFEFF]
     \<or> (0x2000 \<le> u \<and> u \<le> 0x200A)"

definition trim :: "jsstring \<Rightarrow> jsstring" where
  "trim s = rev (dropWhile isWhiteSpace (rev (dropWhile isWhiteSpace s)))"

text \<open>
  \<^verbatim>\<open>String.prototype.slice(start, end)\<close> on integer arguments: a negative index counts
  from the end of the string, both indices are clamped to the string, and an empty span
  gives the empty string. Nothing is raised for any argument.
\<close>

definition string_slice :: "jsstring \<Rightarrow> int \<Rightarrow> int \<Rightarrow> jsstring" where
  "string_slice s start end =
     (let len = int (length s);
          from = (if start < 0 then max (len + start) 0 else min start len);
          to = (if end < 0 then max (len + end) 0 else min end len)
      in take (nat (to - from)) (drop (nat from) s))"

text \<open>
  The decimal rendering of a counter value, as the conversion of a number to a string
  gives it for a positive integer: most significant digit first, no leading zero.
\<close>

definition digit :: "nat \<Rightarrow> 16 word" where
  "digit d = of_nat (48 + d)"

fun digits :: "nat \<Rightarrow> jsstring" where
  "digits n = (if n < 10 then [digit n] else digits (n div 10) @ [digit (n mod 10)])"

declare digits.simps [simp del]

section \<open>The state of the component\<close>

text \<open>
  \<^verbatim>\<open>useState({ left: 0, right: 0, top: 0, bottom: 0 })\<close>: the rectangle of the selected
  text in viewport coordinates.
\<close>

record rect =
  left :: real
  right :: real
  top' :: real
  bottom :: real

definition zero_rect :: rect where
  "zero_rect = \<lparr>left = 0, right = 0, top' = 0, bottom = 0\<rparr>"

record point =
  x :: real
  y :: real

text \<open>
  What the handlers read of \<^verbatim>\<open>window.getSelection()\<close>: the flag \<^verbatim>\<open>isCollapsed\<close>, the
  result of \<^verbatim>\<open>toString()\<close>, and the result of
  \<^verbatim>\<open>getRangeAt(0).getBoundingClientRect()\<close>. The call itself may return \<^verbatim>\<open>null\<close>, which is
  \<open>None\<close> below.
\<close>

record selection =
  isCollapsed :: bool
  toString :: jsstring
  getBoundingClientRect :: rect

text \<open>
  The five state cells of the component, the language held for the key
  \<^verbatim>\<open>TARGET_LANGUAGE\<close>, and what the handlers write of the environment: the counter behind
  \<^verbatim>\<open>uniqueId\<close>, the requests posted on the port \<^verbatim>\<open>ai\<close> (oldest first, each a pair of
  \<^verbatim>\<open>uniqueId\<close> and \<^verbatim>\<open>text\<close>), and the timers of the debounced scroll handlers.
  Every run of the scroll effect wraps a new \<^verbatim>\<open>handleScroll\<close> in \<^verbatim>\<open>debounce\<close>, with a timer
  of its own. \<open>scrollTimer\<close> tells whether the timer of the handler that is registered now
  is armed; \<open>staleTimers\<close> holds, oldest first, the armed timers of handlers of earlier
  renders, each as the \<^verbatim>\<open>showEntryPanel\<close> its handler closed over. The type of languages is
  declared outside this file and is a parameter.
\<close>

record 'lang state =
  sourceText :: jsstring
  textId :: jsstring
  targetText :: jsstring
  showEntryPanel :: bool
  sourceTextRect :: rect
  targetLanguage :: 'lang
  idCounter :: nat
  sent :: "(jsstring \<times> jsstring) list"
  scrollTimer :: bool
  staleTimers :: "bool list"

text \<open>
  The callback given to \<^verbatim>\<open>useStorage\<close>: applied at mount to what the store holds under the
  key (\<open>None\<close> for \<^verbatim>\<open>undefined\<close>); its result becomes the language of the component and is
  written back. Its first argument is the constant \<^verbatim>\<open>LanguageEnum.English\<close>, declared
  outside this file.
\<close>

definition onInit :: "'lang \<Rightarrow> 'lang option \<Rightarrow> 'lang" where
  "onInit English stored = (case stored of None \<Rightarrow> English | Some v \<Rightarrow> v)"

text \<open>
  The state at mount: the initial values of the \<^verbatim>\<open>useState\<close> calls and the language the
  callback above resolves. What the store holds and the value of the counter are whatever the
  environment has at that moment. No scroll handler has been called yet.
\<close>

definition mount_sourceText :: jsstring where
  "mount_sourceText = []"

definition init :: "'lang \<Rightarrow> 'lang option \<Rightarrow> nat \<Rightarrow> 'lang state" where
  "init English stored n =
     \<lparr>sourceText = mount_sourceText, textId = [], targetText = [], showEntryPanel = False,
      sourceTextRect = zero_rect, targetLanguage = onInit English stored, idCounter = n,
      sent = [], scrollTimer = False, staleTimers = []\<rparr>"

text \<open>
  A message delivered on the port: its \<^verbatim>\<open>messageType\<close> with the fields of \<^verbatim>\<open>data\<close> the
  listener reads. \<open>TRANSLATE_TEXT_PART uniqueId text\<close> carries one fragment,
  \<open>TRANSLATE_TEXT_ERROR uniqueId message\<close> carries \<^verbatim>\<open>error.message\<close>; any other message
  type is \<open>OTHER_MESSAGE\<close>.
\<close>

datatype message =
  TRANSLATE_TEXT_PART jsstring jsstring
| TRANSLATE_TEXT_ERROR jsstring jsstring
| OTHER_MESSAGE

section \<open>The handlers\<close>

text \<open>
  \<^verbatim>\<open>entryPanelPosition\<close>: the memoised value depends on \<^verbatim>\<open>left\<close>, \<^verbatim>\<open>right\<close> and \<^verbatim>\<open>bottom\<close>
  of the rectangle only, and all three are dependencies, so it is a function of the current
  rectangle.
\<close>

definition entryPanelPosition :: "rect \<Rightarrow> point" where
  "entryPanelPosition r = \<lparr>x = left r + (right r - left r) / 2, y = bottom r + 10\<rparr>"

text \<open>
  \<^verbatim>\<open>uniqueId()\<close> of the utility library, called without a prefix: it increments a counter
  of the module and returns the new value as a decimal string. The counter is a natural
  number here; the point beyond which a double no longer counts exactly is outside this
  development.
\<close>

definition uniqueId :: "'lang state \<Rightarrow> jsstring \<times> 'lang state" where
  "uniqueId s = (digits (Suc (idCounter s)), s\<lparr>idCounter := Suc (idCounter s)\<rparr>)"

text \<open>
  \<^verbatim>\<open>getTranslatedText(selectedText)\<close>. The function reads the variable \<^verbatim>\<open>sourceText\<close> of
  the render that created it; that value is the first argument here. The operator \<^verbatim>\<open>||\<close>
  yields its right operand exactly when the left one is the empty string.
\<close>

definition getTranslatedText :: "jsstring \<Rightarrow> jsstring \<Rightarrow> 'lang state \<Rightarrow> 'lang state" where
  "getTranslatedText closure_sourceText selectedText s =
     (let (id, s1) = uniqueId s
      in s1\<lparr>textId := id, targetText := [], sourceText := selectedText,
            sent := sent s1 @ [(id, if selectedText \<noteq> [] then selectedText
                                     else closure_sourceText)]\<rparr>)"

text \<open>
  \<^verbatim>\<open>handleTargetLanguageChange(language)\<close> belongs to the current render (the picker's
  items are rendered anew each time), so both the argument it passes and the variable
  \<^verbatim>\<open>sourceText\<close> its callee reads are the current \<^verbatim>\<open>sourceText\<close>.
\<close>

definition handleTargetLanguageChange :: "'lang \<Rightarrow> 'lang state \<Rightarrow> 'lang state" where
  "handleTargetLanguageChange language s =
     getTranslatedText (sourceText s) (sourceText s) (s\<lparr>targetLanguage := language\<rparr>)"

text \<open>
  The listener registered with \<^verbatim>\<open>aiPort.listen\<close>. Its first argument is the \<^verbatim>\<open>textId\<close>
  of the render that registered it. The two tests on \<^verbatim>\<open>messageType\<close> follow each other;
  the message types are distinct, so at most one of them succeeds.
\<close>

fun listener :: "jsstring \<Rightarrow> message \<Rightarrow> 'lang state \<Rightarrow> 'lang state" where
  "listener tid (TRANSLATE_TEXT_PART uid text) s =
     (if uid \<noteq> tid then s else s\<lparr>targetText := targetText s @ text\<rparr>)"
| "listener tid (TRANSLATE_TEXT_ERROR uid msg) s =
     (if uid \<noteq> tid then s else s\<lparr>targetText := msg\<rparr>)"
| "listener tid OTHER_MESSAGE s = s"

text \<open>
  \<^verbatim>\<open>setShowEntryPanel(v)\<close> together with the render it causes. When the value changes, the
  scroll effect (dependency \<^verbatim>\<open>showEntryPanel\<close>) is cleaned up and run again: the cleanup
  removes the old debounced handler from the document and does not cancel it, so a timer it
  has armed stays armed and will call the body with the \<^verbatim>\<open>showEntryPanel\<close> of the old
  render; the handler registered anew has no timer armed. When the value is the one already
  held, nothing is rendered and the effect does not run.
\<close>

definition setShowEntryPanel :: "bool \<Rightarrow> 'lang state \<Rightarrow> 'lang state" where
  "setShowEntryPanel v s =
     (if v = showEntryPanel s then s
      else s\<lparr>showEntryPanel := v,
             staleTimers := (if scrollTimer s then staleTimers s @ [showEntryPanel s]
                             else staleTimers s),
             scrollTimer := False\<rparr>)"

text \<open>
  The handler bound to the key combination. The effect that binds it has no dependencies,
  so the handler is the one of the first render for as long as the component is mounted, and
  the \<^verbatim>\<open>getTranslatedText\<close> it calls reads the \<^verbatim>\<open>sourceText\<close> of that render. The first
  argument is the constant \<^verbatim>\<open>MAX_TRANSLATION_LENGTH\<close>, declared outside this file.
\<close>

definition capture :: "int \<Rightarrow> selection \<Rightarrow> jsstring" where
  "capture MAX_TRANSLATION_LENGTH sel = string_slice (trim (toString sel)) 0 MAX_TRANSLATION_LENGTH"

definition hotkey :: "int \<Rightarrow> selection option \<Rightarrow> 'lang state \<Rightarrow> 'lang state" where
  "hotkey MAX_TRANSLATION_LENGTH selection s =
     (case selection of
        None \<Rightarrow> s
      | Some sel \<Rightarrow>
          if isCollapsed sel then setShowEntryPanel False s
          else getTranslatedText mount_sourceText (capture MAX_TRANSLATION_LENGTH sel)
                 ((setShowEntryPanel True s)\<lparr>sourceTextRect := getBoundingClientRect sel\<rparr>))"

text \<open>
  The body of \<^verbatim>\<open>handleScroll\<close>, which the timer of the debounced handler calls. Its first
  argument is the \<^verbatim>\<open>showEntryPanel\<close> of the render that created the handler; the selection
  is read when the body runs.
\<close>

definition handleScroll :: "bool \<Rightarrow> selection option \<Rightarrow> 'lang state \<Rightarrow> 'lang state" where
  "handleScroll shown selection s =
     (if \<not> shown then s
      else case selection of
             None \<Rightarrow> s
           | Some sel \<Rightarrow>
               if isCollapsed sel then s
               else s\<lparr>sourceTextRect := getBoundingClientRect sel\<rparr>)"

text \<open>
  \<^verbatim>\<open>handleMouseDown\<close>: the argument is \<^verbatim>\<open>localName\<close> of the event's target.
\<close>

definition plasmo_csui :: jsstring where
  "plasmo_csui = utf16 ''plasmo-csui''"

definition handleMouseDown :: "jsstring \<Rightarrow> 'lang state \<Rightarrow> 'lang state" where
  "handleMouseDown localName s =
     (if localName = plasmo_csui then s
      else (setShowEntryPanel False s)\<lparr>sourceTextRect := zero_rect\<rparr>)"

section \<open>Events\<close>

text \<open>
  The host runs one callback at a time. A callback runs to its end, the component is
  rendered again, and the effects whose dependencies changed are run again before the next
  event is delivered: the listener on the port then holds the current \<^verbatim>\<open>textId\<close>
  (dependency \<^verbatim>\<open>textId\<close>), and the scroll handler registered on the document is the one of
  the current \<^verbatim>\<open>showEntryPanel\<close>.

  \<^verbatim>\<open>debounce(f, 100)\<close> with the default options calls \<^verbatim>\<open>f\<close> on the trailing edge only. A
  scroll event calls the registered debounced handler, which arms its timer or, when it is
  armed, restarts it: \<open>Scroll\<close>. When the timer expires it is disarmed and the body runs:
  \<open>ScrollTimer\<close> for the timer of the registered handler, \<open>StaleScrollTimer i\<close> for the
  \<open>i\<close>-th armed timer of a handler of an earlier render. Both carry what
  \<^verbatim>\<open>window.getSelection()\<close> returns at that moment. An expiry of a timer that is not armed
  does not occur; \<open>step\<close> leaves the state as it is there. The first argument of \<open>step\<close>
  and \<open>run\<close> is the constant \<^verbatim>\<open>MAX_TRANSLATION_LENGTH\<close>.
\<close>

datatype 'lang event =
  Hotkey "selection option"
| Scroll
| ScrollTimer "selection option"
| StaleScrollTimer nat "selection option"
| MouseDown jsstring
| PortMessage message
| LanguageSelect 'lang

fun step :: "int \<Rightarrow> 'lang event \<Rightarrow> 'lang state \<Rightarrow> 'lang state" where
  "step M (Hotkey selection) s = hotkey M selection s"
| "step M Scroll s = s\<lparr>scrollTimer := True\<rparr>"
| "step M (ScrollTimer selection) s =
     (if scrollTimer s
      then handleScroll (showEntryPanel s) selection (s\<lparr>scrollTimer := False\<rparr>)
      else s)"
| "step M (StaleScrollTimer i selection) s =
     (if i < length (staleTimers s)
      then handleScroll (staleTimers s ! i) selection
             (s\<lparr>staleTimers := take i (staleTimers s) @ drop (Suc i) (staleTimers s)\<rparr>)
      else s)"
| "step M (MouseDown localName) s = handleMouseDown localName s"
| "step M (PortMessage m) s = listener (textId s) m s"
| "step M (LanguageSelect language) s = handleTargetLanguageChange language s"

fun run :: "int \<Rightarrow> 'lang event list \<Rightarrow> 'lang state \<Rightarrow> 'lang state" where
  "run M [] s = s"
| "run M (e # es) s = run M es (step M e s)"

section \<open>Events that bear on the displayed text\<close>

text \<open>
  An event starts a session when it reaches \<^verbatim>\<open>getTranslatedText\<close>: the key combination on a
  selection that is not collapsed, and the choice of a language. \<open>is_error_of tid\<close> holds of
  an error message tagged \<open>tid\<close>. \<open>fragments_of tid es\<close> lists, in the order of arrival,
  the texts of the fragments in \<open>es\<close> that are tagged \<open>tid\<close>.
\<close>

fun starts_session :: "'lang event \<Rightarrow> bool" where
  "starts_session (Hotkey (Some sel)) = (\<not> isCollapsed sel)"
| "starts_session (LanguageSelect language) = True"
| "starts_session e = False"

fun is_error_of :: "jsstring \<Rightarrow> 'lang event \<Rightarrow> bool" where
  "is_error_of tid (PortMessage (TRANSLATE_TEXT_ERROR uid msg)) = (uid = tid)"
| "is_error_of tid e = False"

fun fragments_of :: "jsstring \<Rightarrow> 'lang event list \<Rightarrow> jsstring list" where
  "fragments_of tid [] = []"
| "fragments_of tid (PortMessage (TRANSLATE_TEXT_PART uid text) # es) =
     (if uid = tid then text # fragments_of tid es else fragments_of tid es)"
| "fragments_of tid (e # es) = fragments_of tid es"

section \<open>The invariant of the session identifiers\<close>

text \<open>
  What every event preserves: the identifiers of the requests posted so far are pairwise
  different renderings of counter values that have been used, the current \<^verbatim>\<open>textId\<close> and
  \<^verbatim>\<open>sourceText\<close> are those of the last request, and \<^verbatim>\<open>textId\<close> is still empty while no
  request has been posted.
\<close>

definition session_inv :: "'lang state \<Rightarrow> bool" where
  "session_inv s \<longleftrightarrow>
     distinct (map fst (sent s)) \<and>
     (\<forall>i \<in> set (map fst (sent s)). \<exists>k. k \<le> idCounter s \<and> i = digits k) \<and>
     (sent s \<noteq> [] \<longrightarrow> textId s = fst (last (sent s)) \<and> sourceText s = snd (last (sent s))) \<and>
     (sent s = [] \<longrightarrow> textId s = [])"

section \<open>Example inputs\<close>

text \<open>
  The selection of the text \<^verbatim>\<open>Hola mundo\<close> with blanks around it, a selection of blanks
  only, and a collapsed selection.
\<close>

definition hola_rect :: rect where
  "hola_rect = \<lparr>left = 100, right = 180, top' = 40, bottom = 56\<rparr>"

definition hola_selection :: selection where
  "hola_selection =
     \<lparr>isCollapsed = False, toString = utf16 '' Hola mundo  '', getBoundingClientRect = hola_rect\<rparr>"

definition blank_selection :: selection where
  "blank_selection =
     \<lparr>isCollapsed = False, toString = utf16 ''  '',
      getBoundingClientRect = \<lparr>left = 5, right = 9, top' = 70, bottom = 86\<rparr>\<rparr>"

definition collapsed_selection :: selection where
  "collapsed_selection =
     \<lparr>isCollapsed = True, toString = [], getBoundingClientRect = zero_rect\<rparr>"

section \<open>Evaluation and the decimal rendering\<close>

lemmas handler_defs =
  hotkey_def handleScroll_def handleMouseDown_def handleTargetLanguageChange_def
  getTranslatedText_def uniqueId_def capture_def setShowEntryPanel_def

lemmas example_defs =
  hola_selection_def hola_rect_def blank_selection_def collapsed_selection_def
  init_def onInit_def mount_sourceText_def zero_rect_def plasmo_csui_def utf16_def
  trim_def isWhiteSpace_def string_slice_def digit_def

lemma digit_inj: "a < 10 \<Longrightarrow> b < 10 \<Longrightarrow> digit a = digit b \<Longrightarrow> a = b"
  unfolding digit_def
  by (simp add: word_of_nat_eq_iff take_bit_nat_eq_self)

lemma digits_not_empty: "digits n \<noteq> []"
  by (subst digits.simps) simp

lemma digits_inj: "digits n = digits m \<Longrightarrow> n = m"
proof (induction n arbitrary: m rule: digits.induct)
  case (1 n)
  show ?case
  proof (cases "n < 10")
    case True
    show ?thesis
    proof (cases "m < 10")
      case True
      with \<open>n < 10\<close> "1.prems" show ?thesis
        by (simp add: digits.simps [of n] digits.simps [of m] digit_inj)
    next
      case False
      with \<open>n < 10\<close> "1.prems" show ?thesis
        using digits_not_empty [of "m div 10"]
        by (simp add: digits.simps [of n] digits.simps [of m])
    qed
  next
    case False
    show ?thesis
    proof (cases "m < 10")
      case True
      with False "1.prems" show ?thesis
        using digits_not_empty [of "n div 10"]
        by (simp add: digits.simps [of n] digits.simps [of m])
    next
      case mf: False
      from False mf "1.prems" have a: "digits (n div 10) = digits (m div 10)"
        and b: "digit (n mod 10) = digit (m mod 10)"
        by (simp_all add: digits.simps [of n] digits.simps [of m])
      from "1.IH" [OF False a] have "n div 10 = m div 10" .
      moreover from b have "n mod 10 = m mod 10" by (simp add: digit_inj)
      ultimately show ?thesis by (metis div_mult_mod_eq)
    qed
  qed
qed

section \<open>What the handlers leave alone\<close>

lemma getTranslatedText_fields:
  "textId (getTranslatedText c t s) = digits (Suc (idCounter s))"
  "targetText (getTranslatedText c t s) = []"
  "sourceText (getTranslatedText c t s) = t"
  "idCounter (getTranslatedText c t s) = Suc (idCounter s)"
  "sent (getTranslatedText c t s) =
     sent s @ [(digits (Suc (idCounter s)), if t \<noteq> [] then t else c)]"
  "showEntryPanel (getTranslatedText c t s) = showEntryPanel s"
  "sourceTextRect (getTranslatedText c t s) = sourceTextRect s"
  "targetLanguage (getTranslatedText c t s) = targetLanguage s"
  by (simp_all add: getTranslatedText_def uniqueId_def)

lemma setShowEntryPanel_fields:
  "showEntryPanel (setShowEntryPanel v s) = v"
  "sent (setShowEntryPanel v s) = sent s"
  "idCounter (setShowEntryPanel v s) = idCounter s"
  "textId (setShowEntryPanel v s) = textId s"
  "sourceText (setShowEntryPanel v s) = sourceText s"
  "targetText (setShowEntryPanel v s) = targetText s"
  "sourceTextRect (setShowEntryPanel v s) = sourceTextRect s"
  "targetLanguage (setShowEntryPanel v s) = targetLanguage s"
  by (simp_all add: setShowEntryPanel_def)

lemma handleScroll_fields:
  "showEntryPanel (handleScroll b selection s) = showEntryPanel s"
  "sent (handleScroll b selection s) = sent s"
  "idCounter (handleScroll b selection s) = idCounter s"
  "textId (handleScroll b selection s) = textId s"
  "sourceText (handleScroll b selection s) = sourceText s"
  "targetText (handleScroll b selection s) = targetText s"
  "targetLanguage (handleScroll b selection s) = targetLanguage s"
  by (simp_all add: handleScroll_def split: option.splits)

lemma listener_frame:
  "sent (listener tid m s) = sent s" "idCounter (listener tid m s) = idCounter s"
  "textId (listener tid m s) = textId s" "sourceText (listener tid m s) = sourceText s"
  by (cases m; simp)+

lemma hotkey_capture:
  "\<not> isCollapsed sel \<Longrightarrow>
   hotkey M (Some sel) s =
     getTranslatedText mount_sourceText (capture M sel)
       ((setShowEntryPanel True s)\<lparr>sourceTextRect := getBoundingClientRect sel\<rparr>)"
  by (simp add: hotkey_def)

section \<open>Every event preserves the invariant\<close>

lemma session_inv_cong:
  assumes "sent s' = sent s" "idCounter s' = idCounter s" "textId s' = textId s"
    "sourceText s' = sourceText s"
  shows "session_inv s' = session_inv s"
  by (simp add: session_inv_def assms)

lemma fresh_id:
  assumes "session_inv s"
  shows "digits (Suc (idCounter s)) \<notin> set (map fst (sent s))"
proof
  assume "digits (Suc (idCounter s)) \<in> set (map fst (sent s))"
  with assms obtain k where "k \<le> idCounter s" "digits (Suc (idCounter s)) = digits k"
    unfolding session_inv_def by blast
  then show False using digits_inj by fastforce
qed

lemma getTranslatedText_inv:
  assumes "session_inv s" and "c = [] \<or> c = t"
    and "sent s' = sent s" "idCounter s' = idCounter s"
  shows "session_inv (getTranslatedText c t s')"
proof -
  have f: "digits (Suc (idCounter s)) \<notin> set (map fst (sent s))"
    using assms(1) by (rule fresh_id)
  have b: "\<forall>i \<in> set (map fst (sent s)). \<exists>k. k \<le> Suc (idCounter s) \<and> i = digits k"
    using assms(1) unfolding session_inv_def by (meson le_Suc_eq)
  have d: "distinct (map fst (sent s))"
    using assms(1) unfolding session_inv_def by blast
  from assms(2) have t: "(if t \<noteq> [] then t else c) = t" by auto
  show ?thesis
    unfolding session_inv_def getTranslatedText_fields assms(3,4) t
    using f b d by auto
qed

lemma step_inv: "session_inv s \<Longrightarrow> session_inv (step M e s)"
proof (cases e)
  case (Hotkey sel)
  assume i: "session_inv s"
  show ?thesis
  proof (cases sel)
    case None
    with Hotkey i show ?thesis by (simp add: hotkey_def)
  next
    case (Some sl)
    show ?thesis
    proof (cases "isCollapsed sl")
      case True
      have "session_inv (setShowEntryPanel False s) = session_inv s"
        by (rule session_inv_cong) (simp_all add: setShowEntryPanel_fields)
      with Hotkey Some True i show ?thesis by (simp add: hotkey_def)
    next
      case False
      have "session_inv (getTranslatedText mount_sourceText (capture M sl)
              ((setShowEntryPanel True s)\<lparr>sourceTextRect := getBoundingClientRect sl\<rparr>))"
        by (rule getTranslatedText_inv [OF i])
          (simp_all add: mount_sourceText_def setShowEntryPanel_fields)
      with Hotkey Some False show ?thesis by (simp add: hotkey_capture)
    qed
  qed
next
  case Scroll
  assume i: "session_inv s"
  have "session_inv (s\<lparr>scrollTimer := True\<rparr>) = session_inv s"
    by (rule session_inv_cong) simp_all
  with Scroll i show ?thesis by simp
next
  case (ScrollTimer sel)
  assume i: "session_inv s"
  have "session_inv (handleScroll (showEntryPanel s) sel (s\<lparr>scrollTimer := False\<rparr>))
          = session_inv s"
    by (rule session_inv_cong) (simp_all add: handleScroll_fields)
  with ScrollTimer i show ?thesis by simp
next
  case (StaleScrollTimer k sel)
  assume i: "session_inv s"
  have "session_inv (handleScroll (staleTimers s ! k) sel
          (s\<lparr>staleTimers := take k (staleTimers s) @ drop (Suc k) (staleTimers s)\<rparr>))
          = session_inv s"
    by (rule session_inv_cong) (simp_all add: handleScroll_fields)
  with StaleScrollTimer i show ?thesis by simp
next
  case (MouseDown nm)
  assume i: "session_inv s"
  have "session_inv ((setShowEntryPanel False s)\<lparr>sourceTextRect := zero_rect\<rparr>) = session_inv s"
    by (rule session_inv_cong) (simp_all add: setShowEntryPanel_fields)
  with MouseDown i show ?thesis by (simp add: handleMouseDown_def)
next
  case (PortMessage m)
  assume i: "session_inv s"
  have "session_inv (listener (textId s) m s) = session_inv s"
    by (rule session_inv_cong) (simp_all add: listener_frame)
  with PortMessage i show ?thesis by simp
next
  case (LanguageSelect l)
  assume i: "session_inv s"
  have "session_inv (getTranslatedText (sourceText s) (sourceText s) (s\<lparr>targetLanguage := l\<rparr>))"
    by (rule getTranslatedText_inv [OF i]) simp_all
  with LanguageSelect show ?thesis by (simp add: handleTargetLanguageChange_def)
qed

lemma init_inv: "session_inv (init English stored n)"
  by (simp add: session_inv_def init_def)

lemma run_inv: "session_inv s \<Longrightarrow> session_inv (run M es s)"
  by (induction es arbitrary: s) (simp_all add: step_inv)

lemma reachable_inv: "session_inv (run M es (init English stored n))"
  by (rule run_inv [OF init_inv])

section \<open>The listener on the port\<close>

lemma inert_if_other_id:
  "uid \<noteq> textId s \<Longrightarrow> step M (PortMessage (TRANSLATE_TEXT_PART uid frag)) s = s"
  "uid \<noteq> textId s \<Longrightarrow> step M (PortMessage (TRANSLATE_TEXT_ERROR uid msg)) s = s"
  by simp_all

text \<open>
  C1 (staleness guard). Let \<open>s\<close> be the state after any sequence of events since mount, let
  the last request posted be the one of session \<open>b\<close> and let \<open>a\<close> be the identifier of any
  request posted before it. Then \<open>b\<close> is the current \<^verbatim>\<open>textId\<close>, \<open>a\<close> differs from it, and a
  fragment or an error message tagged with \<open>a\<close> leaves the whole state as it is. The same
  holds for a message tagged with any identifier other than the current one.
\<close>

theorem stale_session_inert:
  assumes "s = run M es (init English stored n)"
    and "sent s = earlier @ [(b, tb)]"
    and "(a, ta) \<in> set earlier"
  shows "textId s = b \<and> a \<noteq> b \<and>
         step M (PortMessage (TRANSLATE_TEXT_PART a frag)) s = s \<and>
         step M (PortMessage (TRANSLATE_TEXT_ERROR a msg)) s = s \<and>
         (\<forall>uid. uid \<noteq> textId s \<longrightarrow>
            step M (PortMessage (TRANSLATE_TEXT_PART uid frag)) s = s \<and>
            step M (PortMessage (TRANSLATE_TEXT_ERROR uid msg)) s = s)"
proof -
  have i: "session_inv s"
    unfolding assms(1) by (rule reachable_inv)
  from i assms(2) have cur: "textId s = b"
    by (simp add: session_inv_def)
  from i assms(2) have "distinct (map fst earlier @ [b])"
    by (simp add: session_inv_def)
  with assms(3) have ne: "a \<noteq> b"
    by force
  from ne cur have "a \<noteq> textId s" by simp
  with cur ne show ?thesis
    by (simp add: inert_if_other_id)
qed

theorem stale_session_inert_witness:
  "textId (run 100 [Hotkey (Some hola_selection), LanguageSelect ''fr''] (init ''en'' None 0))
     = digits 2 \<and>
   digits 1 \<noteq> digits 2 \<and>
   step 100 (PortMessage (TRANSLATE_TEXT_PART (digits 1) (utf16 ''!!'')))
     (run 100 [Hotkey (Some hola_selection), LanguageSelect ''fr''] (init ''en'' None 0))
   = run 100 [Hotkey (Some hola_selection), LanguageSelect ''fr''] (init ''en'' None 0)"
  using stale_session_inert [where s = "run 100 [Hotkey (Some hola_selection), LanguageSelect ''fr''] (init ''en'' None 0)"
      and M = 100 and es = "[Hotkey (Some hola_selection), LanguageSelect ''fr'']"
      and English = "''en''" and stored = None and n = 0
      and earlier = "[(digits 1, utf16 ''Hola mundo'')]"
      and b = "digits 2" and tb = "utf16 ''Hola mundo''" and a = "digits 1"
      and ta = "utf16 ''Hola mundo''" and frag = "utf16 ''!!''"]
  by (simp add: handler_defs example_defs digits.simps)

lemma fragments_of_Cons:
  "fragments_of tid (e # es) = fragments_of tid [e] @ fragments_of tid es"
proof (cases e)
  case (PortMessage m)
  then show ?thesis by (cases m) simp_all
qed simp_all

lemma step_display:
  assumes "\<not> starts_session e" and "\<not> is_error_of (textId s) e"
  shows "textId (step M e s) = textId s"
    and "targetText (step M e s) = targetText s @ concat (fragments_of (textId s) [e])"
proof -
  have "textId (step M e s) = textId s \<and>
        targetText (step M e s) = targetText s @ concat (fragments_of (textId s) [e])"
  proof (cases e)
    case (Hotkey selection)
    with assms(1) show ?thesis
      by (cases selection) (simp_all add: hotkey_def setShowEntryPanel_fields)
  next
    case (PortMessage m)
    with assms(2) show ?thesis by (cases m) simp_all
  next
    case (LanguageSelect language)
    with assms(1) show ?thesis by simp
  qed (simp_all add: handleScroll_fields handleMouseDown_def setShowEntryPanel_fields)
  then show "textId (step M e s) = textId s"
    and "targetText (step M e s) = targetText s @ concat (fragments_of (textId s) [e])"
    by simp_all
qed

lemma run_display:
  "\<forall>e \<in> set es. \<not> starts_session e \<and> \<not> is_error_of (textId s) e \<Longrightarrow>
   textId (run M es s) = textId s \<and>
   targetText (run M es s) = targetText s @ concat (fragments_of (textId s) es)"
proof (induction es arbitrary: s)
  case Nil
  show ?case by simp
next
  case (Cons e es)
  from Cons.prems have a: "\<not> starts_session e" "\<not> is_error_of (textId s) e"
    by simp_all
  note st = step_display [OF a, of M]
  from Cons.prems st(1)
  have "\<forall>e' \<in> set es. \<not> starts_session e' \<and> \<not> is_error_of (textId (step M e s)) e'"
    by simp
  from Cons.IH [OF this] st show ?case
    by (simp add: fragments_of_Cons [of "textId s" e es])
qed

lemma start_resets_text: "starts_session e \<Longrightarrow> targetText (step M e s) = []"
proof (cases e)
  case (Hotkey selection)
  assume "starts_session e"
  with Hotkey show ?thesis
    by (cases selection) (simp_all add: hotkey_capture getTranslatedText_fields)
qed (simp_all add: handleTargetLanguageChange_def getTranslatedText_fields)

text \<open>
  C2, amended (fragment accumulation). Let \<open>es\<close> be any sequence of events in which no event
  starts a session and no error message carries the current \<^verbatim>\<open>textId\<close>. After \<open>es\<close> the
  displayed text is the one before, followed by the texts of the fragments in \<open>es\<close> that carry
  the current \<^verbatim>\<open>textId\<close>, in the order of arrival; fragments with another identifier and
  all other events add nothing to it, and \<^verbatim>\<open>textId\<close> is kept. When \<open>es\<close> follows the start
  of a session, the displayed text is that concatenation alone.
\<close>

theorem fragments_accumulate:
  assumes "\<forall>e \<in> set es. \<not> starts_session e \<and> \<not> is_error_of (textId s) e"
  shows "targetText (run M es s) = targetText s @ concat (fragments_of (textId s) es) \<and>
         textId (run M es s) = textId s \<and>
         ((\<exists>e0 s0. starts_session e0 \<and> s = step M e0 s0) \<longrightarrow>
            targetText (run M es s) = concat (fragments_of (textId s) es))"
  using run_display [OF assms, of M] by (auto simp: start_resets_text)

theorem fragments_accumulate_witness:
  "targetText (run 100
     [PortMessage (TRANSLATE_TEXT_PART (digits 1) (utf16 ''Hel'')),
      PortMessage (TRANSLATE_TEXT_PART (digits 7) (utf16 ''zzz'')),
      PortMessage OTHER_MESSAGE, Scroll, MouseDown (utf16 ''div''),
      PortMessage (TRANSLATE_TEXT_ERROR (digits 7) (utf16 ''late'')),
      StaleScrollTimer 0 (Some blank_selection), Hotkey (Some collapsed_selection),
      PortMessage (TRANSLATE_TEXT_PART (digits 1) (utf16 ''lo''))]
     (step 100 (Hotkey (Some hola_selection)) (init ''en'' None 0))) = utf16 ''Hello'' \<and>
   starts_session (Hotkey (Some hola_selection) :: string event) \<and>
   textId (step 100 (Hotkey (Some hola_selection)) (init ''en'' None 0)) = digits 1"
  using fragments_accumulate [where M = 100
      and s = "step 100 (Hotkey (Some hola_selection)) (init ''en'' None 0)"
      and es = "[PortMessage (TRANSLATE_TEXT_PART (digits 1) (utf16 ''Hel'')),
      PortMessage (TRANSLATE_TEXT_PART (digits 7) (utf16 ''zzz'')),
      PortMessage OTHER_MESSAGE, Scroll, MouseDown (utf16 ''div''),
      PortMessage (TRANSLATE_TEXT_ERROR (digits 7) (utf16 ''late'')),
      StaleScrollTimer 0 (Some blank_selection), Hotkey (Some collapsed_selection),
      PortMessage (TRANSLATE_TEXT_PART (digits 1) (utf16 ''lo''))]"]
  by (simp add: handler_defs example_defs digits.simps)

text \<open>
  C2 as it is worded excludes only the start of a session between the fragments. An error
  message with the current \<^verbatim>\<open>textId\<close> between two fragments replaces what has accumulated:
  after the fragments \<^verbatim>\<open>Hel\<close> and \<^verbatim>\<open>lo\<close> of session \<^verbatim>\<open>1\<close> with the error \<^verbatim>\<open>boom\<close> between them,
  the displayed text is \<^verbatim>\<open>boomlo\<close> and not \<^verbatim>\<open>Hello\<close>.
\<close>

theorem fragments_after_error_counterexample:
  "textId (run 100 [Hotkey (Some hola_selection)] (init ''en'' None 0)) = digits 1 \<and>
   targetText (run 100
     [Hotkey (Some hola_selection),
      PortMessage (TRANSLATE_TEXT_PART (digits 1) (utf16 ''Hel'')),
      PortMessage (TRANSLATE_TEXT_ERROR (digits 1) (utf16 ''boom'')),
      PortMessage (TRANSLATE_TEXT_PART (digits 1) (utf16 ''lo''))]
     (init ''en'' None 0)) = utf16 ''boomlo'' \<and>
   targetText (run 100
     [Hotkey (Some hola_selection),
      PortMessage (TRANSLATE_TEXT_PART (digits 1) (utf16 ''Hel'')),
      PortMessage (TRANSLATE_TEXT_ERROR (digits 1) (utf16 ''boom'')),
      PortMessage (TRANSLATE_TEXT_PART (digits 1) (utf16 ''lo''))]
     (init ''en'' None 0)) \<noteq> concat [utf16 ''Hel'', utf16 ''lo'']"
  by (simp add: handler_defs example_defs digits.simps)

text \<open>
  C5 (error surfacing). An error message tagged with the current \<^verbatim>\<open>textId\<close> replaces the
  displayed text by the message string of the error and changes nothing else; an error
  message tagged with any other identifier changes nothing.
\<close>

theorem error_surfacing:
  "step M (PortMessage (TRANSLATE_TEXT_ERROR (textId s) msg)) s = s\<lparr>targetText := msg\<rparr> \<and>
   (uid \<noteq> textId s \<longrightarrow> step M (PortMessage (TRANSLATE_TEXT_ERROR uid msg)) s = s)"
  by simp

theorem error_surfacing_witness:
  "step 100 (PortMessage (TRANSLATE_TEXT_ERROR (digits 1) (utf16 ''rate limited'')))
     (step 100 (PortMessage (TRANSLATE_TEXT_PART (digits 1) (utf16 ''Hel'')))
        (step 100 (Hotkey (Some hola_selection)) (init ''en'' None 0)))
   = (step 100 (Hotkey (Some hola_selection)) (init ''en'' None 0))
       \<lparr>targetText := utf16 ''rate limited''\<rparr> \<and>
   digits 7 \<noteq> digits 1 \<and>
   step 100 (PortMessage (TRANSLATE_TEXT_ERROR (digits 7) (utf16 ''rate limited'')))
     (step 100 (Hotkey (Some hola_selection)) (init ''en'' None 0))
   = step 100 (Hotkey (Some hola_selection)) (init ''en'' None 0)"
  using error_surfacing [where M = 100 and msg = "utf16 ''rate limited''" and uid = "digits 7"
      and s = "step 100 (PortMessage (TRANSLATE_TEXT_PART (digits 1) (utf16 ''Hel'')))
                 (step 100 (Hotkey (Some hola_selection)) (init ''en'' None 0))"]
  by (simp add: handler_defs example_defs digits.simps)

text \<open>
  C10 (no terminal state). The state holds no status of the session. After an error message
  with the current \<^verbatim>\<open>textId\<close> a fragment with that identifier is accepted and appended to
  the displayed message of the error; in every state a fragment tagged with the current
  \<^verbatim>\<open>textId\<close> is appended.
\<close>

theorem no_terminal_state:
  "targetText (step M (PortMessage (TRANSLATE_TEXT_PART (textId s) frag))
                 (step M (PortMessage (TRANSLATE_TEXT_ERROR (textId s) msg)) s)) = msg @ frag \<and>
   step M (PortMessage (TRANSLATE_TEXT_PART (textId s) frag)) s
     = s\<lparr>targetText := targetText s @ frag\<rparr>"
  by simp

section \<open>Starting a session\<close>

lemma start_fresh:
  assumes "session_inv s"
  shows "digits (Suc (idCounter s)) \<notin> set (map fst (sent s))"
    and "digits (Suc (idCounter s)) \<noteq> textId s"
proof -
  show f: "digits (Suc (idCounter s)) \<notin> set (map fst (sent s))"
    using assms by (rule fresh_id)
  show "digits (Suc (idCounter s)) \<noteq> textId s"
  proof (cases "sent s = []")
    case True
    with assms have "textId s = []" by (simp add: session_inv_def)
    then show ?thesis by (simp add: digits_not_empty)
  next
    case False
    with assms have "textId s = fst (last (sent s))" by (simp add: session_inv_def)
    with False have "textId s \<in> set (map fst (sent s))" by simp
    with f show ?thesis by metis
  qed
qed

text \<open>
  C3 (session start). Let \<open>s\<close> be the state after any sequence of events since mount. The
  key combination on a selection that is not collapsed, whatever its text (the captured text
  may be empty), sets \<^verbatim>\<open>textId\<close> to an identifier that no request posted before carries and
  that differs from the previous \<^verbatim>\<open>textId\<close>, empties the displayed text, stores the captured
  text as \<^verbatim>\<open>sourceText\<close>, and posts exactly one request: the new identifier with the
  captured text.
\<close>

theorem session_start:
  assumes "s = run M es (init English stored n)"
    and "\<not> isCollapsed sel"
    and "s' = step M (Hotkey (Some sel)) s"
  shows "textId s' \<notin> set (map fst (sent s)) \<and> textId s' \<noteq> textId s \<and>
         targetText s' = [] \<and> sourceText s' = capture M sel \<and>
         sent s' = sent s @ [(textId s', capture M sel)]"
proof -
  have i: "session_inv s"
    unfolding assms(1) by (rule reachable_inv)
  have e: "s' = getTranslatedText mount_sourceText (capture M sel)
                 ((setShowEntryPanel True s)\<lparr>sourceTextRect := getBoundingClientRect sel\<rparr>)"
    unfolding assms(3) using assms(2) by (simp add: hotkey_capture)
  have id: "textId s' = digits (Suc (idCounter s))"
    unfolding e by (simp add: getTranslatedText_fields setShowEntryPanel_fields)
  have "sent s' = sent s @ [(digits (Suc (idCounter s)), capture M sel)]"
    unfolding e
    by (simp add: getTranslatedText_fields setShowEntryPanel_fields mount_sourceText_def)
  moreover have "targetText s' = []" "sourceText s' = capture M sel"
    unfolding e by (simp_all add: getTranslatedText_fields)
  ultimately show ?thesis
    using start_fresh [OF i] id by simp
qed

theorem session_start_witness:
  "sent (step 100 (Hotkey (Some blank_selection))
           (run 100 [Hotkey (Some hola_selection)] (init ''en'' None 0)))
     = [(digits 1, utf16 ''Hola mundo''), (digits 2, [])] \<and>
   textId (step 100 (Hotkey (Some blank_selection))
           (run 100 [Hotkey (Some hola_selection)] (init ''en'' None 0))) = digits 2 \<and>
   digits 2 \<noteq> digits 1 \<and>
   targetText (step 100 (Hotkey (Some blank_selection))
           (run 100 [Hotkey (Some hola_selection)] (init ''en'' None 0))) = []"
  using session_start [where M = 100 and es = "[Hotkey (Some hola_selection)]"
      and English = "''en''" and stored = None and n = 0 and sel = blank_selection
      and s = "run 100 [Hotkey (Some hola_selection)] (init ''en'' None 0)"
      and s' = "step 100 (Hotkey (Some blank_selection))
                  (run 100 [Hotkey (Some hola_selection)] (init ''en'' None 0))"]
  by (simp add: handler_defs example_defs digits.simps)

text \<open>
  C4 (restart on a change of language). Let \<open>s\<close> be the state after any sequence of events
  since mount. Selecting a language in the picker stores it, empties the displayed text and
  posts exactly one request with an identifier that no request posted before carries and that
  differs from the previous \<^verbatim>\<open>textId\<close>; \<^verbatim>\<open>sourceText\<close> is kept and is the text of the new
  request, which therefore repeats the text of the request it supersedes.
\<close>

theorem language_change_restart:
  assumes "s = run M es (init English stored n)"
    and "s' = step M (LanguageSelect language) s"
  shows "targetText s' = [] \<and> textId s' \<notin> set (map fst (sent s)) \<and> textId s' \<noteq> textId s \<and>
         sourceText s' = sourceText s \<and> sent s' = sent s @ [(textId s', sourceText s)] \<and>
         (sent s \<noteq> [] \<longrightarrow> snd (last (sent s')) = snd (last (sent s))) \<and>
         targetLanguage s' = language"
proof -
  have i: "session_inv s"
    unfolding assms(1) by (rule reachable_inv)
  have e: "s' = getTranslatedText (sourceText s) (sourceText s) (s\<lparr>targetLanguage := language\<rparr>)"
    unfolding assms(2) by (simp add: handleTargetLanguageChange_def)
  have id: "textId s' = digits (Suc (idCounter s))"
    unfolding e by (simp add: getTranslatedText_fields)
  have snt: "sent s' = sent s @ [(digits (Suc (idCounter s)), sourceText s)]"
    unfolding e by (simp add: getTranslatedText_fields)
  have rest: "targetText s' = []" "sourceText s' = sourceText s" "targetLanguage s' = language"
    unfolding e by (simp_all add: getTranslatedText_fields)
  have "sent s \<noteq> [] \<longrightarrow> sourceText s = snd (last (sent s))"
    using i by (simp add: session_inv_def)
  with snt rest id start_fresh [OF i] show ?thesis by simp
qed

theorem language_change_restart_witness:
  "sent (step 100 (LanguageSelect ''fr'')
           (run 100 [Hotkey (Some hola_selection), PortMessage (TRANSLATE_TEXT_PART (digits 1) (utf16 ''Hello''))]
              (init ''en'' None 0)))
     = [(digits 1, utf16 ''Hola mundo''), (digits 2, utf16 ''Hola mundo'')] \<and>
   targetText (run 100 [Hotkey (Some hola_selection), PortMessage (TRANSLATE_TEXT_PART (digits 1) (utf16 ''Hello''))]
              (init ''en'' None 0)) = utf16 ''Hello'' \<and>
   targetText (step 100 (LanguageSelect ''fr'')
           (run 100 [Hotkey (Some hola_selection), PortMessage (TRANSLATE_TEXT_PART (digits 1) (utf16 ''Hello''))]
              (init ''en'' None 0))) = [] \<and>
   targetLanguage (step 100 (LanguageSelect ''fr'')
           (run 100 [Hotkey (Some hola_selection), PortMessage (TRANSLATE_TEXT_PART (digits 1) (utf16 ''Hello''))]
              (init ''en'' None 0))) = ''fr''"
  using language_change_restart [where M = 100 and language = "''fr''"
      and English = "''en''" and stored = None and n = 0
      and es = "[Hotkey (Some hola_selection), PortMessage (TRANSLATE_TEXT_PART (digits 1) (utf16 ''Hello''))]"
      and s = "run 100 [Hotkey (Some hola_selection), PortMessage (TRANSLATE_TEXT_PART (digits 1) (utf16 ''Hello''))]
              (init ''en'' None 0)"
      and s' = "step 100 (LanguageSelect ''fr'')
           (run 100 [Hotkey (Some hola_selection), PortMessage (TRANSLATE_TEXT_PART (digits 1) (utf16 ''Hello''))]
              (init ''en'' None 0))"]
  by (simp add: handler_defs example_defs digits.simps)

section \<open>Capturing the selection\<close>

lemma rev_dropWhile_takeWhile:
  "rev (dropWhile P (rev xs)) @ rev (takeWhile P (rev xs)) = xs"
  by (metis rev_append rev_rev_ident takeWhile_dropWhile_id)

lemma trim_decomposition:
  "\<exists>pre suf. t = pre @ trim t @ suf \<and>
     (\<forall>u \<in> set pre. isWhiteSpace u) \<and> (\<forall>u \<in> set suf. isWhiteSpace u)"
proof -
  define d where "d = dropWhile isWhiteSpace t"
  define pre where "pre = takeWhile isWhiteSpace t"
  define suf where "suf = rev (takeWhile isWhiteSpace (rev d))"
  have "d = trim t @ suf"
    unfolding trim_def suf_def d_def by (rule rev_dropWhile_takeWhile [symmetric])
  moreover have "t = pre @ d"
    by (simp add: pre_def d_def)
  moreover have "\<forall>u \<in> set pre. isWhiteSpace u"
    unfolding pre_def by (auto dest: set_takeWhileD)
  moreover have "\<forall>u \<in> set suf. isWhiteSpace u"
    unfolding suf_def by (auto dest: set_takeWhileD)
  ultimately show ?thesis by blast
qed

lemma trim_ends:
  assumes "trim t \<noteq> []"
  shows "\<not> isWhiteSpace (hd (trim t))" and "\<not> isWhiteSpace (last (trim t))"
proof -
  define d where "d = dropWhile isWhiteSpace t"
  define e where "e = dropWhile isWhiteSpace (rev d)"
  have te: "trim t = rev e" by (simp add: trim_def e_def d_def)
  with assms have ne: "e \<noteq> []" by simp
  then have "\<not> isWhiteSpace (hd e)" unfolding e_def by (rule hd_dropWhile)
  with ne te show "\<not> isWhiteSpace (last (trim t))" by (simp add: last_rev)
  have dd: "d = trim t @ rev (takeWhile isWhiteSpace (rev d))"
    unfolding te e_def by (rule rev_dropWhile_takeWhile [symmetric])
  with assms have dne: "d \<noteq> []" by auto
  then have "\<not> isWhiteSpace (hd d)" unfolding d_def by (rule hd_dropWhile)
  moreover from dd assms have "hd d = hd (trim t)" by (metis hd_append2)
  ultimately show "\<not> isWhiteSpace (hd (trim t))" by simp
qed

lemma capture_take: "0 \<le> M \<Longrightarrow> capture M sel = take (nat M) (trim (toString sel))"
  by (simp add: capture_def string_slice_def Let_def min_def)

text \<open>
  C8 (capture truncation). For a cap \<^verbatim>\<open>MAX_TRANSLATION_LENGTH\<close> that is not negative, the
  captured text is the first \<^verbatim>\<open>MAX_TRANSLATION_LENGTH\<close> code units of the trimmed text of the
  selection, so it is never longer than the cap; the trimmed text is the text of the selection
  without a prefix and a suffix of white space, and neither begins nor ends with white
  space. The key combination stores the captured text as \<^verbatim>\<open>sourceText\<close> and sends it. No
  case of the capture is an error.
\<close>

theorem capture_truncation:
  assumes "0 \<le> M"
  shows "capture M sel = take (nat M) (trim (toString sel)) \<and>
         int (length (capture M sel)) \<le> M \<and>
         (\<exists>pre suf. toString sel = pre @ trim (toString sel) @ suf \<and>
            (\<forall>u \<in> set pre. isWhiteSpace u) \<and> (\<forall>u \<in> set suf. isWhiteSpace u)) \<and>
         (trim (toString sel) \<noteq> [] \<longrightarrow>
            \<not> isWhiteSpace (hd (trim (toString sel))) \<and>
            \<not> isWhiteSpace (last (trim (toString sel)))) \<and>
         (\<not> isCollapsed sel \<longrightarrow>
            sourceText (step M (Hotkey (Some sel)) s) = capture M sel \<and>
            snd (last (sent (step M (Hotkey (Some sel)) s))) = capture M sel)"
proof -
  have a: "capture M sel = take (nat M) (trim (toString sel))"
    using assms by (rule capture_take)
  have b: "int (length (capture M sel)) \<le> M"
    unfolding a using assms by simp
  have c: "\<not> isCollapsed sel \<longrightarrow>
            sourceText (step M (Hotkey (Some sel)) s) = capture M sel \<and>
            snd (last (sent (step M (Hotkey (Some sel)) s))) = capture M sel"
    by (simp add: hotkey_capture getTranslatedText_fields mount_sourceText_def)
  from a b c trim_decomposition [of "toString sel"] trim_ends [of "toString sel"]
  show ?thesis by blast
qed

theorem capture_truncation_witness:
  "(0::int) \<le> 4 \<and> capture 4 hola_selection = utf16 ''Hola'' \<and>
   int (length (capture 4 hola_selection)) \<le> 4 \<and>
   sourceText (step 4 (Hotkey (Some hola_selection)) (init ''en'' None 0)) = utf16 ''Hola''"
  using capture_truncation [where M = 4 and sel = hola_selection
      and s = "init ''en'' None 0"]
  by (simp add: handler_defs example_defs)


section \<open>Position and visibility of the panel\<close>

text \<open>
  C7 (anchor computation). The position of the panel is the point whose \<open>x\<close> is
  \<open>left + (right - left) / 2\<close>, the horizontal midpoint of the rectangle, and whose \<open>y\<close>
  is \<open>bottom + 10\<close>. After the key combination on a selection that is not collapsed, and
  after a call of the scroll handler that took effect (the body run with the flag of a shown
  panel, as the timer of the registered handler does while the panel is shown), it is this
  point of the rectangle of the selection.
\<close>

theorem anchor_computation:
  "entryPanelPosition r = \<lparr>x = left r + (right r - left r) / 2, y = bottom r + 10\<rparr> \<and>
   x (entryPanelPosition r) - left r = right r - x (entryPanelPosition r) \<and>
   (\<not> isCollapsed sel \<longrightarrow>
      entryPanelPosition (sourceTextRect (step M (Hotkey (Some sel)) s))
        = entryPanelPosition (getBoundingClientRect sel)) \<and>
   (\<not> isCollapsed sel \<longrightarrow>
      entryPanelPosition (sourceTextRect (handleScroll True (Some sel) s))
        = entryPanelPosition (getBoundingClientRect sel)) \<and>
   (scrollTimer s \<longrightarrow> showEntryPanel s \<longrightarrow> \<not> isCollapsed sel \<longrightarrow>
      entryPanelPosition (sourceTextRect (step M (ScrollTimer (Some sel)) s))
        = entryPanelPosition (getBoundingClientRect sel))"
  by (simp add: entryPanelPosition_def hotkey_def handleScroll_def getTranslatedText_fields
      field_simps)

theorem anchor_computation_witness:
  "entryPanelPosition (sourceTextRect (step 100 (Hotkey (Some hola_selection))
       (init ''en'' None 0))) = \<lparr>x = 140, y = 66\<rparr> \<and>
   showEntryPanel (run 100 [Hotkey (Some hola_selection), Scroll] (init ''en'' None 0)) \<and>
   scrollTimer (run 100 [Hotkey (Some hola_selection), Scroll] (init ''en'' None 0)) \<and>
   entryPanelPosition (sourceTextRect (step 100 (ScrollTimer (Some blank_selection))
       (run 100 [Hotkey (Some hola_selection), Scroll] (init ''en'' None 0))))
     = \<lparr>x = 7, y = 96\<rparr>"
  using anchor_computation [where M = 100 and sel = hola_selection
      and s = "init ''en'' None 0"]
    anchor_computation [where M = 100 and sel = blank_selection
      and s = "run 100 [Hotkey (Some hola_selection), Scroll] (init ''en'' None 0)"]
  by (simp add: handler_defs example_defs entryPanelPosition_def)

text \<open>
  What holds of the scroll handler: whichever timer calls the body, it changes at most the
  rectangle, and it changes nothing when its flag is false or the selection is collapsed or
  absent.
\<close>

lemma handleScroll_frame:
  "handleScroll False selection s = s"
  "handleScroll b None s = s"
  "isCollapsed sel \<Longrightarrow> handleScroll b (Some sel) s = s"
  "\<not> isCollapsed sel \<Longrightarrow>
     handleScroll True (Some sel) s = s\<lparr>sourceTextRect := getBoundingClientRect sel\<rparr>"
  by (simp_all add: handleScroll_def split: option.splits)

text \<open>
  C9 (frame of the scroll handler) fails on the timer of a handler of an earlier render.
  The panel is shown by the key combination; a scroll event arms the timer of the handler
  registered for the shown panel; within the 100 ms a pointer-down outside the panel hides it
  and sets the rectangle to zero, and the cleanup of the effect leaves the timer armed; the
  timer expires while a selection that is not collapsed still exists. The body then runs with
  the flag of the shown panel: the panel is hidden, and the rectangle is replaced by the one
  of the selection.
\<close>

theorem stale_scroll_timer_after_hide:
  "\<not> showEntryPanel (run 100 [Hotkey (Some hola_selection), Scroll, MouseDown (utf16 ''div'')]
                       (init ''en'' None 0)) \<and>
   sourceTextRect (run 100 [Hotkey (Some hola_selection), Scroll, MouseDown (utf16 ''div'')]
                     (init ''en'' None 0)) = zero_rect \<and>
   staleTimers (run 100 [Hotkey (Some hola_selection), Scroll, MouseDown (utf16 ''div'')]
                  (init ''en'' None 0)) = [True] \<and>
   \<not> showEntryPanel (run 100 [Hotkey (Some hola_selection), Scroll, MouseDown (utf16 ''div''),
                              StaleScrollTimer 0 (Some blank_selection)]
                       (init ''en'' None 0)) \<and>
   sourceTextRect (run 100 [Hotkey (Some hola_selection), Scroll, MouseDown (utf16 ''div''),
                            StaleScrollTimer 0 (Some blank_selection)]
                     (init ''en'' None 0))
     = \<lparr>left = 5, right = 9, top' = 70, bottom = 86\<rparr>"
  by (simp add: handler_defs example_defs)

text \<open>
  C6, amended. A pointer-down on an element other than the root of the panel (tag
  \<^verbatim>\<open>plasmo-csui\<close>) hides the panel and sets the rectangle to zero, and leaves the session
  (its identifier, source text, displayed text and requests) alone; a pointer-down on that
  root changes nothing. The key combination on a collapsed selection hides the panel and
  leaves the session alone. Without a selection object the key combination changes nothing.
\<close>

theorem hide_and_reset:
  "(localName \<noteq> plasmo_csui \<longrightarrow>
      \<not> showEntryPanel (step M (MouseDown localName) s) \<and>
      sourceTextRect (step M (MouseDown localName) s) = zero_rect \<and>
      textId (step M (MouseDown localName) s) = textId s \<and>
      sourceText (step M (MouseDown localName) s) = sourceText s \<and>
      targetText (step M (MouseDown localName) s) = targetText s \<and>
      sent (step M (MouseDown localName) s) = sent s) \<and>
   step M (MouseDown plasmo_csui) s = s \<and>
   (isCollapsed sel \<longrightarrow>
      \<not> showEntryPanel (step M (Hotkey (Some sel)) s) \<and>
      textId (step M (Hotkey (Some sel)) s) = textId s \<and>
      sourceText (step M (Hotkey (Some sel)) s) = sourceText s \<and>
      targetText (step M (Hotkey (Some sel)) s) = targetText s \<and>
      sent (step M (Hotkey (Some sel)) s) = sent s) \<and>
   step M (Hotkey None) s = s"
  by (simp add: handleMouseDown_def hotkey_def setShowEntryPanel_fields)

theorem hide_and_reset_witness:
  "utf16 ''div'' \<noteq> plasmo_csui \<and>
   showEntryPanel (step 100 (Hotkey (Some hola_selection)) (init ''en'' None 0)) \<and>
   \<not> showEntryPanel (step 100 (MouseDown (utf16 ''div''))
        (step 100 (Hotkey (Some hola_selection)) (init ''en'' None 0))) \<and>
   sourceTextRect (step 100 (MouseDown (utf16 ''div''))
        (step 100 (Hotkey (Some hola_selection)) (init ''en'' None 0))) = zero_rect \<and>
   isCollapsed collapsed_selection \<and>
   \<not> showEntryPanel (step 100 (Hotkey (Some collapsed_selection))
        (step 100 (Hotkey (Some hola_selection)) (init ''en'' None 0)))"
  using hide_and_reset [where M = 100 and localName = "utf16 ''div''" and sel = collapsed_selection
      and s = "step 100 (Hotkey (Some hola_selection)) (init ''en'' None 0)"]
  by (simp add: handler_defs example_defs)

text \<open>
  C6 as it is worded fails on the key combination. After a capture, the key combination
  without a selection object leaves the panel shown, and the key combination on a collapsed
  selection leaves the rectangle of that capture in place.
\<close>

theorem zeroed_on_hotkey_counterexample:
  "showEntryPanel (run 100 [Hotkey (Some hola_selection), Hotkey None] (init ''en'' None 0)) \<and>
   sourceTextRect (run 100 [Hotkey (Some hola_selection), Hotkey (Some collapsed_selection)]
                     (init ''en'' None 0)) \<noteq> zero_rect"
  by (simp add: handler_defs example_defs)

end
